theory Spec2Isabelle
  imports Complex_Main "HOL-Library.AList" "HOL-Library.Code_Target_Nat"
begin

section \<open>Data model (types of the job engine)\<close>

text \<open>
  \<^verbatim>\<open>JobType\<close> and \<^verbatim>\<open>JobStatus\<close> are the two string-literal unions of the
  types module. The constructor names of \<^verbatim>\<open>JobType\<close> carry a prefix because
  \<^verbatim>\<open>random\<close> is already a constant of the library.
\<close>

datatype JobType = T_random | T_price | T_webhook

datatype JobStatus =
    pending_payment
  | payment_confirmed
  | query_in_progress
  | completed
  | failed

text \<open>
  Values of type \<^verbatim>\<open>unknown\<close> that enter through a JSON request body. A number is a
  double that came out of \<^verbatim>\<open>JSON.parse\<close>, so it is never NaN; the only operation the
  engine performs on numbers is the comparison \<^verbatim>\<open>min >= max\<close>, which on such values
  is the order of the reals they denote. An object is the list of its members; a member is
  read with \<^const>\<open>map_of\<close>.
\<close>

datatype json =
    JNull
  | JBool bool
  | JNum real
  | JStr string
  | JArr "json list"
  | JObj "(string \<times> json) list"

type_synonym params = "(string \<times> json) list"

text \<open>
  \<^verbatim>\<open>interface OracleJob\<close>. The fields \<^verbatim>\<open>id\<close> and \<^verbatim>\<open>type\<close> are renamed
  (\<^verbatim>\<open>id\<close> is the identity function of HOL); a \<^verbatim>\<open>Date\<close> is a number of milliseconds.
\<close>

record OracleJob =
  job_id :: string
  job_type :: JobType
  parameters :: params
  status :: JobStatus
  result :: "json option"
  createdAt :: nat
  updatedAt :: nat

text \<open>\<^verbatim>\<open>Partial<OracleJob>\<close>: every field may be absent.\<close>

record PartialJob =
  p_id :: "string option"
  p_type :: "JobType option"
  p_parameters :: "params option"
  p_status :: "JobStatus option"
  p_result :: "json option"
  p_createdAt :: "nat option"
  p_updatedAt :: "nat option"

definition no_update :: PartialJob where
  "no_update = \<lparr>p_id = None, p_type = None, p_parameters = None, p_status = None,
     p_result = None, p_createdAt = None, p_updatedAt = None\<rparr>"

definition only_status :: "JobStatus \<Rightarrow> PartialJob" where
  \<comment> \<open>the object literal \<^verbatim>\<open>{ status: s }\<close>\<close>
  "only_status s = no_update\<lparr>p_status := Some s\<rparr>"

section \<open>JobService\<close>

text \<open>
  The service owns \<^verbatim>\<open>jobs: Map<string, OracleJob>\<close>. A JavaScript \<^verbatim>\<open>Map\<close> iterates in
  insertion order and \<^verbatim>\<open>set\<close> on a present key replaces the value in place, which is
  \<^const>\<open>AList.update\<close> on an association list. \<^verbatim>\<open>nanoid()\<close> and \<^verbatim>\<open>new Date()\<close> are
  inputs from the environment: the identifier drawn and the current time.
\<close>

type_synonym JobService = "(string \<times> OracleJob) list"

definition createJob ::
  "string \<Rightarrow> nat \<Rightarrow> JobType \<Rightarrow> params \<Rightarrow> JobService \<Rightarrow> OracleJob \<times> JobService" where
  "createJob nanoid now ty ps js =
     (let job = \<lparr>job_id = nanoid, job_type = ty, parameters = ps, status = pending_payment,
                 result = None, createdAt = now, updatedAt = now\<rparr>
      in (job, AList.update (job_id job) job js))"

definition getJob :: "JobService \<Rightarrow> string \<Rightarrow> OracleJob option" where
  "getJob js i = map_of js i"

definition spread :: "OracleJob \<Rightarrow> PartialJob \<Rightarrow> nat \<Rightarrow> OracleJob" where
  \<comment> \<open>\<^verbatim>\<open>{ ...job, ...partialUpdate, updatedAt: new Date() }\<close>\<close>
  "spread job pu now =
     \<lparr>job_id = (case p_id pu of None \<Rightarrow> job_id job | Some v \<Rightarrow> v),
      job_type = (case p_type pu of None \<Rightarrow> job_type job | Some v \<Rightarrow> v),
      parameters = (case p_parameters pu of None \<Rightarrow> parameters job | Some v \<Rightarrow> v),
      status = (case p_status pu of None \<Rightarrow> status job | Some v \<Rightarrow> v),
      result = (case p_result pu of None \<Rightarrow> result job | Some v \<Rightarrow> Some v),
      createdAt = (case p_createdAt pu of None \<Rightarrow> createdAt job | Some v \<Rightarrow> v),
      updatedAt = now\<rparr>"

definition updateJob ::
  "string \<Rightarrow> PartialJob \<Rightarrow> nat \<Rightarrow> JobService \<Rightarrow> OracleJob option \<times> JobService" where
  "updateJob i pu now js =
     (case map_of js i of
        None \<Rightarrow> (None, js)
      | Some job \<Rightarrow>
          (let updated = spread job pu now
           in (Some updated, AList.update i updated js)))"

definition getAllJobs :: "JobService \<Rightarrow> OracleJob list" where
  \<comment> \<open>\<^verbatim>\<open>Array.from(this.jobs.values())\<close>; the method has no parameters\<close>
  "getAllJobs js = map snd js"

text \<open>A history of calls to the two mutating methods, run from the empty store.\<close>

datatype service_call =
    CallCreate string nat JobType params
  | CallUpdate string PartialJob nat

fun run_call :: "service_call \<Rightarrow> JobService \<Rightarrow> JobService" where
  "run_call (CallCreate nanoid now ty ps) js = snd (createJob nanoid now ty ps js)"
| "run_call (CallUpdate i pu now) js = snd (updateJob i pu now js)"

definition run_calls :: "service_call list \<Rightarrow> JobService" where
  "run_calls cs = fold run_call cs []"

fun returned_ids :: "service_call list \<Rightarrow> string list" where
  "returned_ids [] = []"
| "returned_ids (CallCreate nanoid now ty ps # cs) = nanoid # returned_ids cs"
| "returned_ids (CallUpdate i pu now # cs) = returned_ids cs"

section \<open>Errors and request validation\<close>

text \<open>
  The error classes of the errors module. A handler that throws passes the error to
  \<^verbatim>\<open>next\<close>; the error handler answers with \<^verbatim>\<open>statusCode\<close> and the message.
\<close>

datatype AppError =
    ValidationError string
  | NotFoundError string
  | BadRequestError string

fun statusCode :: "AppError \<Rightarrow> nat" where
  "statusCode (ValidationError m) = 400"
| "statusCode (NotFoundError r) = 404"
| "statusCode (BadRequestError m) = 400"

fun error_message :: "AppError \<Rightarrow> string" where
  "error_message (ValidationError m) = m"
| "error_message (NotFoundError r) = r @ '' not found''"
| "error_message (BadRequestError m) = m"

definition parse_type :: "json option \<Rightarrow> JobType option" where
  \<comment> \<open>\<^verbatim>\<open>z.enum(['random', 'price', 'webhook'])\<close>\<close>
  "parse_type v =
     (case v of
        Some (JStr s) \<Rightarrow>
          (if s = ''random'' then Some T_random
           else if s = ''price'' then Some T_price
           else if s = ''webhook'' then Some T_webhook
           else None)
      | _ \<Rightarrow> None)"

definition validateCreateJob :: "json \<Rightarrow> AppError + (JobType \<times> params)" where
  \<comment> \<open>\<^verbatim>\<open>createJobSchema.parse\<close>: an object whose \<^verbatim>\<open>type\<close> is in the enumeration and
      whose \<^verbatim>\<open>parameters\<close> is an object, passed through with all its members\<close>
  "validateCreateJob data =
     (case data of
        JObj members \<Rightarrow>
          (case parse_type (map_of members ''type'') of
             None \<Rightarrow> Inl (ValidationError ''Invalid request data'')
           | Some ty \<Rightarrow>
               (case map_of members ''parameters'' of
                  Some (JObj ps) \<Rightarrow> Inr (ty, ps)
                | _ \<Rightarrow> Inl (ValidationError ''Invalid request data'')))
      | _ \<Rightarrow> Inl (ValidationError ''Invalid request data''))"

definition validateJobId :: "string \<Rightarrow> AppError + string" where
  \<comment> \<open>\<^verbatim>\<open>z.string().min(1)\<close> on the route parameter\<close>
  "validateJobId i = (if 1 \<le> length i then Inr i else Inl (ValidationError ''Invalid job ID''))"

text \<open>JavaScript truthiness of a member that may be absent, and \<^verbatim>\<open>typeof\<close>.\<close>

fun truthy :: "json option \<Rightarrow> bool" where
  "truthy None = False"
| "truthy (Some JNull) = False"
| "truthy (Some (JBool b)) = b"
| "truthy (Some (JNum x)) = (x \<noteq> 0)"
| "truthy (Some (JStr s)) = (s \<noteq> [])"
| "truthy (Some (JArr xs)) = True"
| "truthy (Some (JObj ms)) = True"

fun is_string :: "json option \<Rightarrow> bool" where
  "is_string (Some (JStr s)) = True"
| "is_string v = False"

definition truthy_string :: "string option \<Rightarrow> bool" where
  "truthy_string s = (case s of None \<Rightarrow> False | Some t \<Rightarrow> t \<noteq> [])"

definition or_else :: "string option \<Rightarrow> string \<Rightarrow> string" where
  \<comment> \<open>\<^verbatim>\<open>s || d\<close> on a string that may be undefined\<close>
  "or_else s d = (case s of None \<Rightarrow> d | Some t \<Rightarrow> if t = [] then d else t)"

definition check_parameters :: "JobType \<Rightarrow> params \<Rightarrow> AppError option" where
  \<comment> \<open>the type-specific validation at the head of the controller's \<^verbatim>\<open>createJob\<close>;
      \<^verbatim>\<open>Some\<close> is the error thrown\<close>
  "check_parameters ty ps =
     (case ty of
        T_random \<Rightarrow>
          (case (map_of ps ''min'', map_of ps ''max'') of
             (Some (JNum mn), Some (JNum mx)) \<Rightarrow>
               (if mn \<ge> mx
                then Some (BadRequestError
                  ''Random job requires valid min and max numbers where min < max'')
                else None)
           | _ \<Rightarrow> Some (BadRequestError
                  ''Random job requires valid min and max numbers where min < max''))
      | T_price \<Rightarrow>
          (if \<not> truthy (map_of ps ''pair'') \<or> \<not> is_string (map_of ps ''pair'')
           then Some (BadRequestError ''Price job requires a pair parameter (string)'')
           else None)
      | T_webhook \<Rightarrow>
          (if \<not> truthy (map_of ps ''url'') \<or> \<not> is_string (map_of ps ''url'')
           then Some (BadRequestError ''Webhook job requires a url parameter (string)'')
           else None))"

definition url_has_scheme_delimiter :: "string \<Rightarrow> bool" where
  \<comment> \<open>Not from the code, which never inspects the text of a URL: from the spec's words
      "syntactically valid target URL". Every absolute URL starts with a scheme that a colon
      ends, so a string without a colon is not one. Used to state what the code accepts.\<close>
  "url_has_scheme_delimiter s = (CHR '':'' \<in> set s)"

section \<open>Configuration, X402Service, FacilitatorService\<close>

text \<open>The environment variables the services read.\<close>

record Config =
  ORAXEL_MODE :: "string option"
  FACILITATOR_URL :: "string option"
  FACILITATOR_NAME :: "string option"

datatype Mode = demo | live

definition env_mode :: "Config \<Rightarrow> Mode" where
  \<comment> \<open>\<^verbatim>\<open>validateEnv\<close>: \<^verbatim>\<open>ORAXEL_MODE || 'demo'\<close>, and anything but \<^verbatim>\<open>'live'\<close> is demo\<close>
  "env_mode cfg = (if ORAXEL_MODE cfg = Some ''live'' then live else demo)"

definition x402_mode :: "Config \<Rightarrow> string" where
  \<comment> \<open>the constructor of X402Service: \<^verbatim>\<open>process.env.ORAXEL_MODE || 'demo'\<close>\<close>
  "x402_mode cfg = or_else (ORAXEL_MODE cfg) ''demo''"

record PaymentRequest =
  paymentUrl :: string
  r_amount :: real
  r_currency :: string

definition createPaymentRequest :: "Config \<Rightarrow> OracleJob \<Rightarrow> PaymentRequest" where
  "createPaymentRequest cfg job =
     (if x402_mode cfg = ''demo''
      then \<lparr>paymentUrl = ''https://x402-demo.payment.example.com/pay/'' @ job_id job,
            r_amount = 3 / 1000, r_currency = ''SOL''\<rparr>
      else \<lparr>paymentUrl = ''https://x402.payment.example.com/pay/'' @ job_id job,
            r_amount = 3 / 1000, r_currency = ''SOL''\<rparr>)"

definition simulatePaymentConfirmation :: "Config \<Rightarrow> string \<Rightarrow> bool" where
  "simulatePaymentConfirmation cfg jobId = (if x402_mode cfg = ''demo'' then True else True)"

record PaymentVerificationResult =
  verified :: bool
  transactionId :: "string option"
  v_amount :: "real option"
  v_currency :: "string option"
  v_error :: "string option"

text \<open>
  What the facilitator's \<^verbatim>\<open>/verify\<close> endpoint does, seen from \<^verbatim>\<open>verifyPayment\<close>:
  a response that is not ok, with the \<^verbatim>\<open>message\<close> of its body if it has one; an ok
  response, with the members \<^verbatim>\<open>verified\<close>, \<^verbatim>\<open>transactionId\<close>, \<^verbatim>\<open>amount\<close> and
  \<^verbatim>\<open>currency\<close> of its body; or a rejected \<^verbatim>\<open>fetch\<close> (network error, timeout raised by
  the runtime, unparsable body), with the error's message when it is an \<^verbatim>\<open>Error\<close>.
\<close>

datatype facilitator_reply =
    ReplyNotOk nat "string option"
  | ReplyOk "json option" "string option" "real option" "string option"
  | ReplyThrows "string option"

fun show_nat :: "nat \<Rightarrow> string" where
  "show_nat n =
     (if n < 10 then [''0123456789'' ! n]
      else show_nat (n div 10) @ [''0123456789'' ! (n mod 10)])"

definition verifyPayment ::
  "Config \<Rightarrow> string \<Rightarrow> string \<Rightarrow> real \<Rightarrow> facilitator_reply \<Rightarrow> PaymentVerificationResult" where
  "verifyPayment cfg paymentHeader jobId expectedAmount reply =
     (if env_mode cfg = demo \<or> \<not> truthy_string (FACILITATOR_URL cfg)
      then \<lparr>verified = True, transactionId = Some (''demo-tx-'' @ jobId),
            v_amount = Some expectedAmount, v_currency = Some ''SOL'', v_error = None\<rparr>
      else
        (case reply of
           ReplyNotOk st msg \<Rightarrow>
             \<lparr>verified = False, transactionId = None, v_amount = None, v_currency = None,
              v_error = Some (or_else msg (''Facilitator returned '' @ show_nat st))\<rparr>
         | ReplyOk v tx am cur \<Rightarrow>
             \<lparr>verified = (v = Some (JBool True)), transactionId = tx, v_amount = am,
              v_currency = Some (or_else cur ''SOL''),
              v_error = None\<rparr>
         | ReplyThrows msg \<Rightarrow>
             \<lparr>verified = False, transactionId = None, v_amount = None, v_currency = None,
              v_error = Some (case msg of Some m \<Rightarrow> m | None \<Rightarrow> ''Facilitator API error'')\<rparr>))"

record PaymentInstructions =
  i_amount :: string
  i_currency :: string
  methods :: "string list"
  facilitator :: "(string \<times> string) option"

definition getPaymentInstructions :: "Config \<Rightarrow> PaymentInstructions" where
  \<comment> \<open>called without arguments everywhere: amount 0.003, currency SOL\<close>
  "getPaymentInstructions cfg =
     \<lparr>i_amount = ''0.003'', i_currency = ''SOL'', methods = [''solana''],
      facilitator =
        (case FACILITATOR_URL cfg of
           None \<Rightarrow> None
         | Some url \<Rightarrow>
             (if url = [] then None
              else Some (url, or_else (FACILITATOR_NAME cfg) ''x402 Facilitator'')))\<rparr>"

section \<open>The shared state of the server\<close>

text \<open>
  One controller owns one JobService; the cache and the queue are the two services the
  controller imports. \<^verbatim>\<open>clock\<close> is what \<^verbatim>\<open>new Date()\<close> reads, in milliseconds.
\<close>

record World =
  jobs :: JobService
  cache :: "(string \<times> OracleJob \<times> nat) list"
  queue :: "OracleJob list"
  clock :: nat

definition empty_world :: World where
  "empty_world = \<lparr>jobs = [], cache = [], queue = [], clock = 0\<rparr>"

definition cacheService_get :: "string \<Rightarrow> World \<Rightarrow> OracleJob option \<times> World" where
  \<comment> \<open>Modelled from the spec: the CacheService module is not among the sources. Its contract
      is \<^verbatim>\<open>get(id) -> snapshot | miss\<close> on entries \<^verbatim>\<open>(snapshot, expiry)\<close>.\<close>
  "cacheService_get key w =
     (case map_of (cache w) key of
        None \<Rightarrow> (None, w)
      | Some (snapshot, expiry) \<Rightarrow> (if clock w < expiry then Some snapshot else None, w))"

definition cacheService_set :: "string \<Rightarrow> OracleJob \<Rightarrow> nat \<Rightarrow> World \<Rightarrow> unit \<times> World" where
  \<comment> \<open>Modelled from the spec: \<^verbatim>\<open>set(id, snapshot, ttl)\<close>, the time-to-live in seconds.\<close>
  "cacheService_set key snapshot ttl w =
     ((), w\<lparr>cache := AList.update key (snapshot, clock w + ttl * 1000) (cache w)\<rparr>)"

definition cacheService_del :: "string \<Rightarrow> World \<Rightarrow> unit \<times> World" where
  \<comment> \<open>Modelled from the spec: \<^verbatim>\<open>invalidate(id)\<close>.\<close>
  "cacheService_del key w = ((), w\<lparr>cache := AList.delete key (cache w)\<rparr>)"

definition queueService_addJob :: "OracleJob \<Rightarrow> World \<Rightarrow> unit \<times> World" where
  \<comment> \<open>Modelled from the spec: the QueueService module is not among the sources.
      \<^verbatim>\<open>submit(job)\<close> accepts the job for execution out of line; the model records the job
      values handed over, in order, and nothing of the execution.\<close>
  "queueService_addJob job w = ((), w\<lparr>queue := queue w @ [job]\<rparr>)"

definition jobService_createJob ::
  "string \<Rightarrow> JobType \<Rightarrow> params \<Rightarrow> World \<Rightarrow> OracleJob \<times> World" where
  "jobService_createJob nanoid ty ps w =
     (case createJob nanoid (clock w) ty ps (jobs w) of (job, js) \<Rightarrow> (job, w\<lparr>jobs := js\<rparr>))"

definition jobService_getJob :: "string \<Rightarrow> World \<Rightarrow> OracleJob option \<times> World" where
  "jobService_getJob i w = (getJob (jobs w) i, w)"

definition jobService_updateJob ::
  "string \<Rightarrow> PartialJob \<Rightarrow> World \<Rightarrow> OracleJob option \<times> World" where
  "jobService_updateJob i pu w =
     (case updateJob i pu (clock w) (jobs w) of (r, js) \<Rightarrow> (r, w\<lparr>jobs := js\<rparr>))"

definition pure_call :: "'a \<Rightarrow> World \<Rightarrow> 'a \<times> World" where
  \<comment> \<open>an awaited call that touches no shared state\<close>
  "pure_call v w = (v, w)"

section \<open>JobController\<close>

text \<open>
  What a handler hands to Express: an error passed to \<^verbatim>\<open>next\<close>, or a response.
\<close>

record X402PaymentResponse =
  x_payment :: PaymentInstructions
  x_jobId :: string
  x_message :: "string option"
  x_error :: "string option"

record ListResponse =
  l_jobs :: "OracleJob list"
  l_limit :: int
  l_offset :: int
  l_total :: int
  l_hasMore :: bool

datatype Response =
    Created201 string JobStatus PaymentRequest
  | Job200 "OracleJob option"
  | Payment402 X402PaymentResponse
  | List200 ListResponse

type_synonym outcome = "AppError + Response"

text \<open>
  The handlers are \<^verbatim>\<open>async\<close> functions on a single-threaded event loop: a handler runs
  without interruption up to an \<^verbatim>\<open>await\<close>, and other handlers may run before it is
  resumed. Every access of a handler to the shared state is an awaited call to a service, so
  a handler is a chain of such calls: \<^verbatim>\<open>Await k e\<close> applies the effect \<open>e\<close> of the next
  awaited call to the shared state and goes on as \<open>k\<close> says for the value the call returned;
  \<^verbatim>\<open>Done\<close> is the handler that has answered. The code of a handler between two awaited
  calls touches no shared state, so it is run together with the call before it.
\<close>

datatype prog =
    Done outcome
  | Await "World \<Rightarrow> prog" "World \<Rightarrow> World"

definition await :: "(World \<Rightarrow> 'a \<times> World) \<Rightarrow> ('a \<Rightarrow> prog) \<Rightarrow> prog" where
  \<comment> \<open>\<^verbatim>\<open>const v = await f(...); k(v)\<close>\<close>
  "await f k = Await (\<lambda>w. k (fst (f w))) (\<lambda>w. snd (f w))"

definition status_name :: "JobStatus \<Rightarrow> string" where
  "status_name s =
     (case s of
        pending_payment \<Rightarrow> ''pending_payment''
      | payment_confirmed \<Rightarrow> ''payment_confirmed''
      | query_in_progress \<Rightarrow> ''query_in_progress''
      | completed \<Rightarrow> ''completed''
      | failed \<Rightarrow> ''failed'')"

definition JobController_createJob :: "Config \<Rightarrow> json \<Rightarrow> string \<Rightarrow> prog" where
  \<comment> \<open>\<open>body\<close> is \<^verbatim>\<open>req.body\<close>, \<open>nanoid\<close> the identifier \<^verbatim>\<open>nanoid()\<close> will draw\<close>
  "JobController_createJob cfg body nanoid =
     (case validateCreateJob body of
        Inl e \<Rightarrow> Done (Inl e)
      | Inr (ty, ps) \<Rightarrow>
          (case check_parameters ty ps of
             Some e \<Rightarrow> Done (Inl e)
           | None \<Rightarrow>
               await (jobService_createJob nanoid ty ps) (\<lambda>job.
                 Done (Inr (Created201 (job_id job) (status job)
                              (createPaymentRequest cfg job))))))"

definition dispatch :: "string \<Rightarrow> OracleJob \<Rightarrow> prog" where
  \<comment> \<open>the five awaited calls that \<^verbatim>\<open>confirmPayment\<close> and \<^verbatim>\<open>getJob\<close> both make once
      the payment is accepted; \<open>job\<close> is the handler's local variable, read at its start\<close>
  "dispatch i job =
     await (jobService_updateJob i (only_status payment_confirmed)) (\<lambda>r1.
     await (jobService_updateJob i (only_status query_in_progress)) (\<lambda>r2.
     await (queueService_addJob job) (\<lambda>u1.
     await (cacheService_del (''job:'' @ i)) (\<lambda>u2.
     await (jobService_getJob i) (\<lambda>updatedJob.
       Done (Inr (Job200 updatedJob)))))))"

definition JobController_confirmPayment :: "Config \<Rightarrow> string \<Rightarrow> prog" where
  "JobController_confirmPayment cfg idp =
     (case validateJobId idp of
        Inl e \<Rightarrow> Done (Inl e)
      | Inr i \<Rightarrow>
          await (jobService_getJob i) (\<lambda>found.
            case found of
              None \<Rightarrow> Done (Inl (NotFoundError ''Job''))
            | Some job \<Rightarrow>
                (if status job \<noteq> pending_payment
                 then Done (Inl (BadRequestError
                        (''Job is not in pending_payment status. Current status: ''
                           @ status_name (status job))))
                 else await (pure_call (simulatePaymentConfirmation cfg i)) (\<lambda>ok.
                        dispatch i job))))"

definition JobController_getJob ::
  "Config \<Rightarrow> string \<Rightarrow> string option \<Rightarrow> facilitator_reply \<Rightarrow> prog" where
  \<comment> \<open>\<open>paymentHeader\<close> is the \<^verbatim>\<open>x-402-payment\<close> header, \<open>reply\<close> what the facilitator
      will answer if it is asked\<close>
  "JobController_getJob cfg idp paymentHeader reply =
     (case validateJobId idp of
        Inl e \<Rightarrow> Done (Inl e)
      | Inr i \<Rightarrow>
          await (jobService_getJob i) (\<lambda>found.
            case found of
              None \<Rightarrow> Done (Inl (NotFoundError ''Job''))
            | Some job \<Rightarrow>
                (if status job = pending_payment \<and> \<not> truthy_string paymentHeader
                 then Done (Inr (Payment402
                        \<lparr>x_payment = getPaymentInstructions cfg, x_jobId = i,
                         x_message = Some ''Payment required to access this resource'',
                         x_error = None\<rparr>))
                 else if truthy_string paymentHeader \<and> status job = pending_payment
                 then
                   await (pure_call
                            (verifyPayment cfg (or_else paymentHeader []) i (3 / 1000) reply))
                     (\<lambda>verification.
                        if \<not> verified verification
                        then Done (Inr (Payment402
                               \<lparr>x_payment = getPaymentInstructions cfg, x_jobId = i,
                                x_message = None,
                                x_error = Some (or_else (v_error verification)
                                                  ''Payment verification failed'')\<rparr>))
                        else dispatch i job)
                 else
                   await (cacheService_get (''job:'' @ i)) (\<lambda>cached.
                     case cached of
                       Some snapshot \<Rightarrow> Done (Inr (Job200 (Some snapshot)))
                     | None \<Rightarrow>
                         await (jobService_getJob i) (\<lambda>currentJob.
                           case currentJob of
                             None \<Rightarrow> Done (Inl (NotFoundError ''Job''))
                           | Some current \<Rightarrow>
                               await (cacheService_set (''job:'' @ i) current 60) (\<lambda>u.
                                 Done (Inr (Job200 (Some current)))))))))"

text \<open>
  \<^verbatim>\<open>listJobs\<close>. The query is given after \<^verbatim>\<open>parseInt\<close> (\<^verbatim>\<open>None\<close> is NaN). The
  handler calls \<^verbatim>\<open>getAllJobs(limit, offset, filters)\<close> and reads the members \<^verbatim>\<open>jobs\<close>
  and \<^verbatim>\<open>total\<close> of the result. The JobService among the sources has only a
  \<^verbatim>\<open>getAllJobs()\<close> without parameters, which returns all jobs as an array: the method the
  handler calls is not among the sources, and is taken from the spec.
\<close>

record ListQuery =
  q_limit :: "int option"
  q_offset :: "int option"
  q_status :: "string option"
  q_type :: "string option"

definition int_or :: "int option \<Rightarrow> int \<Rightarrow> int" where
  \<comment> \<open>\<^verbatim>\<open>parseInt(s, 10) || d\<close>\<close>
  "int_or n d = (case n of None \<Rightarrow> d | Some v \<Rightarrow> if v = 0 then d else v)"

definition query_filters :: "ListQuery \<Rightarrow> string option \<times> string option" where
  \<comment> \<open>the object \<^verbatim>\<open>filters\<close>: \<^verbatim>\<open>status\<close> and \<^verbatim>\<open>type\<close>, each set only if truthy\<close>
  "query_filters q =
     (if truthy_string (q_status q) then q_status q else None,
      if truthy_string (q_type q) then q_type q else None)"

definition type_name :: "JobType \<Rightarrow> string" where
  "type_name ty =
     (case ty of T_random \<Rightarrow> ''random'' | T_price \<Rightarrow> ''price'' | T_webhook \<Rightarrow> ''webhook'')"

definition matches_filters :: "string option \<times> string option \<Rightarrow> OracleJob \<Rightarrow> bool" where
  \<comment> \<open>Modelled from the spec: the filter "by kind/state" of \<^verbatim>\<open>JobStore.list\<close>; the
      method that applies it is not among the sources. An absent filter lets every job
      through.\<close>
  "matches_filters filters job \<longleftrightarrow>
     (case fst filters of None \<Rightarrow> True | Some s \<Rightarrow> status_name (status job) = s) \<and>
     (case snd filters of None \<Rightarrow> True | Some t \<Rightarrow> type_name (job_type job) = t)"

definition list_jobs ::
  "int \<Rightarrow> int \<Rightarrow> string option \<times> string option \<Rightarrow> JobService \<Rightarrow> OracleJob list \<times> int" where
  \<comment> \<open>Modelled from the spec: the method \<^verbatim>\<open>getAllJobs(limit, offset, filters)\<close> with the
      result \<^verbatim>\<open>{ jobs, total }\<close>, which the controller calls, is not among the sources.
      The spec's contract of \<^verbatim>\<open>JobStore.list\<close>: "stable pagination ordered by creation
      time ascending; total reflects the filtered count, not the page size". The sort is
      stable on the order of insertion.\<close>
  "list_jobs lmt ofs filters js =
     (let matching = filter (matches_filters filters) (sort_key createdAt (getAllJobs js))
      in (take (nat lmt) (drop (nat ofs) matching), int (length matching)))"

definition jobService_list ::
  "int \<Rightarrow> int \<Rightarrow> string option \<times> string option \<Rightarrow> World \<Rightarrow> (OracleJob list \<times> int) \<times> World" where
  "jobService_list lmt ofs filters w = (list_jobs lmt ofs filters (jobs w), w)"

definition JobController_listJobs :: "ListQuery \<Rightarrow> prog" where
  "JobController_listJobs q =
     (let lmt = int_or (q_limit q) 50;
          ofs = int_or (q_offset q) 0;
          filters = query_filters q
      in await (jobService_list lmt ofs filters) (\<lambda>res.
           Done (Inr (List200
             \<lparr>l_jobs = fst res, l_limit = lmt, l_offset = ofs, l_total = snd res,
              l_hasMore = (ofs + lmt < snd res)\<rparr>))))"

section \<open>Running handlers\<close>

text \<open>One handler alone, from start to answer, and the shared states it passes through.\<close>

primrec run :: "prog \<Rightarrow> World \<Rightarrow> outcome \<times> World" where
  "run (Done r) w = (r, w)"
| "run (Await k e) w = run (k w) (e w)"

primrec run_trace :: "prog \<Rightarrow> World \<Rightarrow> World list" where
  "run_trace (Done r) w = []"
| "run_trace (Await k e) w = e w # run_trace (k w) (e w)"

datatype Request =
    ReqCreate json string
  | ReqConfirm string
  | ReqGet string "string option" facilitator_reply
  | ReqList ListQuery

fun handler :: "Config \<Rightarrow> Request \<Rightarrow> prog" where
  "handler cfg (ReqCreate body nanoid) = JobController_createJob cfg body nanoid"
| "handler cfg (ReqConfirm idp) = JobController_confirmPayment cfg idp"
| "handler cfg (ReqGet idp paymentHeader reply) = JobController_getJob cfg idp paymentHeader reply"
| "handler cfg (ReqList q) = JobController_listJobs q"


fun serve_trace :: "Config \<Rightarrow> Request list \<Rightarrow> World \<Rightarrow> World list" where
  "serve_trace cfg [] w = []"
| "serve_trace cfg (r # rs) w =
     run_trace (handler cfg r) w @ serve_trace cfg rs (snd (run (handler cfg r) w))"



fun nanoids :: "Request list \<Rightarrow> string list" where
  "nanoids [] = []"
| "nanoids (ReqCreate body nanoid # rs) = nanoid # nanoids rs"
| "nanoids (r # rs) = nanoids rs"

text \<open>
  Requests in flight together: the event loop resumes one suspended handler at a time, and
  time passes between two resumptions. \<^verbatim>\<open>Resume n\<close> lets handler \<open>n\<close> run to its next
  \<^verbatim>\<open>await\<close>; a handler that has not run yet starts. A handler gives way to the others at
  least where the call it awaits waits itself, for a timer or for input and output: the
  verification of a payment, the queue, the cache. The schedules of the examples switch
  from one handler to another only at such calls.
\<close>

datatype event = Resume nat | Tick nat

fun exec_event :: "event \<Rightarrow> prog list \<times> World \<Rightarrow> prog list \<times> World" where
  "exec_event (Tick ms) (ps, w) = (ps, w\<lparr>clock := clock w + ms\<rparr>)"
| "exec_event (Resume n) (ps, w) =
     (if n < length ps
      then (case ps ! n of
              Done r \<Rightarrow> (ps, w)
            | Await k e \<Rightarrow> (ps[n := k w], e w))
      else (ps, w))"

definition exec_events :: "event list \<Rightarrow> prog list \<times> World \<Rightarrow> prog list \<times> World" where
  "exec_events evs c = fold exec_event evs c"

fun events_trace :: "event list \<Rightarrow> prog list \<times> World \<Rightarrow> World list" where
  "events_trace [] c = []"
| "events_trace (ev # evs) c = snd (exec_event ev c) # events_trace evs (exec_event ev c)"

definition answers :: "prog list \<Rightarrow> outcome option list" where
  "answers ps = map (\<lambda>p. case p of Done r \<Rightarrow> Some r | Await k e \<Rightarrow> None) ps"

section \<open>The life cycle\<close>

definition status_of :: "string \<Rightarrow> World \<Rightarrow> JobStatus option" where
  "status_of i w = map_option status (getJob (jobs w) i)"

fun forward :: "JobStatus option \<Rightarrow> JobStatus option \<Rightarrow> bool" where
  \<comment> \<open>the chain of the spec, ends included: from one shared state to the next a job's state
      does not change, or the job appears as \<^verbatim>\<open>pending_payment\<close>, or its state moves to
      the next of \<^verbatim>\<open>pending_payment\<close>, \<^verbatim>\<open>payment_confirmed\<close>, \<^verbatim>\<open>query_in_progress\<close>,
      then \<^verbatim>\<open>completed\<close> or \<^verbatim>\<open>failed\<close>\<close>
  "forward None None = True"
| "forward None (Some s) = (s = pending_payment)"
| "forward (Some s) None = False"
| "forward (Some s) (Some t) =
     (t = s \<or>
      (s = pending_payment \<and> t = payment_confirmed) \<or>
      (s = payment_confirmed \<and> t = query_in_progress) \<or>
      (s = query_in_progress \<and> (t = completed \<or> t = failed)))"

fun advance :: "JobStatus option \<Rightarrow> JobStatus option \<Rightarrow> bool" where
  \<comment> \<open>the steps the controller makes: no change, creation as \<^verbatim>\<open>pending_payment\<close>,
      \<^verbatim>\<open>pending_payment\<close> to \<^verbatim>\<open>payment_confirmed\<close>, \<^verbatim>\<open>payment_confirmed\<close> to
      \<^verbatim>\<open>query_in_progress\<close>\<close>
  "advance None None = True"
| "advance None (Some s) = (s = pending_payment)"
| "advance (Some s) None = False"
| "advance (Some s) (Some t) =
     (t = s \<or>
      (s = pending_payment \<and> t = payment_confirmed) \<or>
      (s = payment_confirmed \<and> t = query_in_progress))"


section \<open>Example inputs\<close>

definition demo_cfg :: Config where
  "demo_cfg = \<lparr>ORAXEL_MODE = None, FACILITATOR_URL = None, FACILITATOR_NAME = None\<rparr>"

definition live_cfg :: Config where
  "live_cfg = \<lparr>ORAXEL_MODE = Some ''live'',
                FACILITATOR_URL = Some ''https://facilitator.example.com'',
                FACILITATOR_NAME = None\<rparr>"

definition pending_job :: OracleJob where
  "pending_job =
     \<lparr>job_id = ''j1'', job_type = T_random,
      parameters = [(''min'', JNum 1), (''max'', JNum 402)],
      status = pending_payment, result = None, createdAt = 0, updatedAt = 0\<rparr>"

definition completed_job :: OracleJob where
  "completed_job = pending_job\<lparr>status := completed, result := Some (JNum 7), updatedAt := 5\<rparr>"


definition one_pending :: World where
  "one_pending = \<lparr>jobs = [(''j1'', pending_job)], cache = [], queue = [], clock = 0\<rparr>"


definition random_body :: "real \<Rightarrow> real \<Rightarrow> json" where
  "random_body mn mx =
     JObj [(''type'', JStr ''random''), (''parameters'', JObj [(''min'', JNum mn), (''max'', JNum mx)])]"

definition webhook_body :: "string \<Rightarrow> json" where
  "webhook_body url =
     JObj [(''type'', JStr ''webhook''), (''parameters'', JObj [(''url'', JStr url)])]"

definition two_fetches :: "prog list" where
  \<comment> \<open>two Fetch requests for the same job, each with a payment proof\<close>
  "two_fetches =
     [JobController_getJob demo_cfg ''j1'' (Some ''proof-a'') (ReplyThrows None),
      JobController_getJob demo_cfg ''j1'' (Some ''proof-b'') (ReplyThrows None)]"

definition overlapping :: "event list" where
  \<comment> \<open>the second request arrives while the first waits for the verification of its proof
      (200 ms in demo mode, a round trip to the facilitator in live mode); each handler then
      runs its dispatch sequence without interruption\<close>
  "overlapping =
     [Resume 0, Resume 0,
      Resume 1, Resume 1,
      Tick 200,
      Resume 0, Resume 0, Resume 0, Resume 0, Resume 0,
      Tick 50,
      Resume 1, Resume 1, Resume 1, Resume 1, Resume 1]"

definition example_session :: "Request list" where
  \<comment> \<open>a job is created, fetched without proof, fetched twice with a proof, and confirmed\<close>
  "example_session =
     [ReqCreate (random_body 1 402) ''j1'',
      ReqGet ''j1'' None (ReplyThrows None),
      ReqGet ''j1'' (Some ''proof-a'') (ReplyThrows None),
      ReqGet ''j1'' (Some ''proof-b'') (ReplyThrows None),
      ReqConfirm ''j1'']"

definition four_fetches :: "prog list" where
  \<comment> \<open>two Fetches with a proof, and two Fetches without one\<close>
  "four_fetches =
     [JobController_getJob demo_cfg ''j1'' (Some ''proof-a'') (ReplyThrows None),
      JobController_getJob demo_cfg ''j1'' (Some ''proof-b'') (ReplyThrows None),
      JobController_getJob demo_cfg ''j1'' None (ReplyThrows None),
      JobController_getJob demo_cfg ''j1'' None (ReplyThrows None)]"

definition stale_read :: "event list" where
  \<comment> \<open>the two Fetches with a proof overlap as in \<open>overlapping\<close>. Between the answer of
      the first and the resumption of the second, the third request reads the job and caches
      it. The second then updates the job and hands it to the queue; while it waits for the
      queue, before it deletes the cache entry, the fourth request is served from the cache.
      Handlers are switched only where one waits for the verification or for the queue.\<close>
  "stale_read =
     [Resume 0, Resume 0,
      Resume 1, Resume 1,
      Tick 200,
      Resume 0, Resume 0, Resume 0, Resume 0, Resume 0,
      Resume 2, Resume 2, Resume 2, Resume 2,
      Tick 50,
      Resume 1, Resume 1, Resume 1,
      Resume 3, Resume 3]"

definition stale_cache :: World where
  \<comment> \<open>the job is stored in \<^verbatim>\<open>pending_payment\<close> and the cache holds another snapshot of it\<close>
  "stale_cache =
     \<lparr>jobs = [(''j1'', pending_job)], cache = [(''job:j1'', completed_job, 60000)],
      queue = [], clock = 10\<rparr>"



definition one_completed :: World where
  "one_completed = \<lparr>jobs = [(''j1'', completed_job)], cache = [], queue = [], clock = 20\<rparr>"



section \<open>Notions used in the proofs\<close>

text \<open>
  A request served alone does one of three things: it runs the dispatch sequence on a job
  it has read as \<^verbatim>\<open>pending_payment\<close>; it creates a job; or it leaves the store of jobs
  and the queue as they are.
\<close>

definition dispatching :: "prog \<Rightarrow> World \<Rightarrow> string \<Rightarrow> OracleJob \<Rightarrow> bool" where
  "dispatching p w i job \<longleftrightarrow>
     getJob (jobs w) i = Some job \<and> status job = pending_payment \<and>
     run_trace p w = w # w # run_trace (dispatch i job) w \<and>
     run p w = run (dispatch i job) w"

definition creating :: "prog \<Rightarrow> World \<Rightarrow> string \<Rightarrow> bool" where
  "creating p w nanoid \<longleftrightarrow>
     (\<exists>ty ps. run_trace p w = [snd (jobService_createJob nanoid ty ps w)] \<and>
              snd (run p w) = snd (jobService_createJob nanoid ty ps w))"

definition idle :: "prog \<Rightarrow> World \<Rightarrow> bool" where
  "idle p w \<longleftrightarrow>
     (\<forall>w' \<in> set (run_trace p w). jobs w' = jobs w \<and> queue w' = queue w) \<and>
     jobs (snd (run p w)) = jobs w \<and> queue (snd (run p w)) = queue w"


section \<open>Properties of JobService\<close>

lemma map_of_update: "map_of (AList.update k v al) = (map_of al)(k \<mapsto> v)"
  by (rule update_conv')

lemma keys_update: "fst ` set (AList.update k v al) = insert k (fst ` set al)"
  using dom_update [of k v al] by (simp add: dom_map_of_conv_image_fst)

lemma map_of_Some_key: "map_of al k = Some v \<Longrightarrow> k \<in> fst ` set al"
  by (metis domI dom_map_of_conv_image_fst)

lemma keys_run_call: "fst ` set (run_call c js) \<subseteq> fst ` set js \<union> set (returned_ids [c])"
proof (cases c)
  case (CallCreate nanoid now ty ps)
  then show ?thesis
    by (auto simp: createJob_def Let_def keys_update)
next
  case (CallUpdate i pu now)
  then show ?thesis
    by (auto simp: updateJob_def Let_def keys_update dest: map_of_Some_key
             split: option.splits)
qed

lemma returned_ids_append: "returned_ids (cs @ ds) = returned_ids cs @ returned_ids ds"
  by (induction cs rule: returned_ids.induct) simp_all

lemma keys_fold_run_call:
  "fst ` set (fold run_call cs js) \<subseteq> fst ` set js \<union> set (returned_ids cs)"
proof (induction cs arbitrary: js)
  case Nil
  show ?case by simp
next
  case (Cons c cs)
  have "fst ` set (fold run_call cs (run_call c js))
          \<subseteq> fst ` set (run_call c js) \<union> set (returned_ids cs)"
    by (rule Cons.IH)
  moreover have "fst ` set (run_call c js) \<subseteq> fst ` set js \<union> set (returned_ids [c])"
    by (rule keys_run_call)
  moreover have "returned_ids (c # cs) = returned_ids [c] @ returned_ids cs"
    using returned_ids_append [of "[c]" cs] by simp
  ultimately show ?case by auto
qed

lemma updateJob_keys: "map fst (snd (updateJob i pu now js)) = map fst js"
proof (cases "map_of js i")
  case None
  then show ?thesis by (simp add: updateJob_def)
next
  case (Some job)
  then have "i \<in> fst ` set js" by (rule map_of_Some_key)
  with Some show ?thesis by (simp add: updateJob_def Let_def update_keys)
qed

text \<open>
  C2, as amended. \<^verbatim>\<open>updateJob\<close> has no expected state and no expected version, and an
  \<^verbatim>\<open>OracleJob\<close> has no version field. The update is applied whenever a job is stored under
  the identifier, whatever its state: the stored job becomes the old job overridden by the
  supplied fields, stamped with the current time, and is returned; every other job is left
  as it is. Only for an unknown identifier does the call return null and leave the store
  unchanged.
\<close>

theorem updateJob_unconditional:
  "(getJob js i = None \<longrightarrow> updateJob i pu now js = (None, js)) \<and>
   (\<forall>job. getJob js i = Some job \<longrightarrow>
      fst (updateJob i pu now js) = Some (spread job pu now) \<and>
      getJob (snd (updateJob i pu now js)) i = Some (spread job pu now) \<and>
      (\<forall>k. k \<noteq> i \<longrightarrow> getJob (snd (updateJob i pu now js)) k = getJob js k) \<and>
      map fst (snd (updateJob i pu now js)) = map fst js)"
  using updateJob_keys [of i pu now js]
  by (auto simp: updateJob_def getJob_def Let_def map_of_update split: option.splits)

text \<open>
  C2, as stated, fails: a job that is already \<^verbatim>\<open>completed\<close> is overwritten by the update
  \<^verbatim>\<open>{ status: 'payment_confirmed' }\<close>, which the controller issues for a job it has read
  as \<^verbatim>\<open>pending_payment\<close>. The call returns the updated job, not a conflict, and the store
  has changed.
\<close>

theorem updateJob_ignores_state_counterexample:
  "status completed_job \<noteq> pending_payment \<and>
   fst (updateJob ''j1'' (only_status payment_confirmed) 9 [(''j1'', completed_job)])
     = Some (completed_job\<lparr>status := payment_confirmed, updatedAt := 9\<rparr>) \<and>
   snd (updateJob ''j1'' (only_status payment_confirmed) 9 [(''j1'', completed_job)])
     \<noteq> [(''j1'', completed_job)]"
  by (simp add: updateJob_def Let_def spread_def only_status_def no_update_def
        completed_job_def pending_job_def)

theorem updateJob_unconditional_witness:
  "getJob [(''j1'', completed_job)] ''j1'' = Some completed_job \<and>
   getJob (snd (updateJob ''j1'' (only_status payment_confirmed) 9 [(''j1'', completed_job)])) ''j1''
     = Some (spread completed_job (only_status payment_confirmed) 9) \<and>
   getJob [(''j1'', completed_job)] ''zz'' = None \<and>
   updateJob ''zz'' (only_status payment_confirmed) 9 [(''j1'', completed_job)]
     = (None, [(''j1'', completed_job)])"
  using updateJob_unconditional [of "[(''j1'', completed_job)]" "''j1''"
          "only_status payment_confirmed" 9]
        updateJob_unconditional [of "[(''j1'', completed_job)]" "''zz''"
          "only_status payment_confirmed" 9]
  by (simp add: getJob_def)

text \<open>
  C10. \<^verbatim>\<open>createJob\<close> returns a job in \<^verbatim>\<open>pending_payment\<close> whose two timestamps are the
  same; \<^verbatim>\<open>getJob\<close> with the identifier of that job, right after, yields that very job; and
  in a store built from the empty one by any calls of \<^verbatim>\<open>createJob\<close> and \<^verbatim>\<open>updateJob\<close>,
  \<^verbatim>\<open>getJob\<close> finds nothing under an identifier that no \<^verbatim>\<open>createJob\<close> has returned.
\<close>

theorem createJob_getJob_roundtrip:
  "status (fst (createJob nanoid now ty ps js)) = pending_payment \<and>
   createdAt (fst (createJob nanoid now ty ps js)) = updatedAt (fst (createJob nanoid now ty ps js)) \<and>
   getJob (snd (createJob nanoid now ty ps js)) (job_id (fst (createJob nanoid now ty ps js)))
     = Some (fst (createJob nanoid now ty ps js)) \<and>
   (i \<notin> set (returned_ids cs) \<longrightarrow> getJob (run_calls cs) i = None)"
proof -
  have "fst ` set (run_calls cs) \<subseteq> set (returned_ids cs)"
    using keys_fold_run_call [of cs "[]"] by (simp add: run_calls_def)
  then have "i \<notin> set (returned_ids cs) \<Longrightarrow> map_of (run_calls cs) i = None"
    by (auto simp: map_of_eq_None_iff)
  then show ?thesis
    by (simp add: createJob_def Let_def getJob_def map_of_update)
qed

theorem createJob_getJob_roundtrip_witness:
  "''j2'' \<notin> set (returned_ids [CallCreate ''j1'' 0 T_price [], CallUpdate ''j2'' no_update 1]) \<and>
   getJob (run_calls [CallCreate ''j1'' 0 T_price [], CallUpdate ''j2'' no_update 1]) ''j2'' = None \<and>
   getJob (snd (createJob ''j1'' 0 T_price [] [])) ''j1'' = Some (fst (createJob ''j1'' 0 T_price [] []))"
  using createJob_getJob_roundtrip [of "''j1''" 0 T_price "[]" "[]" "''j2''"
          "[CallCreate ''j1'' 0 T_price [], CallUpdate ''j2'' no_update 1]"]
  by (simp add: createJob_def Let_def getJob_def run_calls_def updateJob_def)

section \<open>Listing\<close>




section \<open>Creation\<close>

lemma run_createJob_rejected:
  "validateCreateJob body = Inr (ty, ps) \<Longrightarrow> check_parameters ty ps = Some e \<Longrightarrow>
   run (JobController_createJob cfg body nanoid) w = (Inl e, w)"
  by (simp add: JobController_createJob_def)

lemma run_createJob_accepted:
  "validateCreateJob body = Inr (ty, ps) \<Longrightarrow> check_parameters ty ps = None \<Longrightarrow>
   run (JobController_createJob cfg body nanoid) w =
     (Inr (Created201 nanoid pending_payment
             (createPaymentRequest cfg (fst (createJob nanoid (clock w) ty ps (jobs w))))),
      w\<lparr>jobs := snd (createJob nanoid (clock w) ty ps (jobs w))\<rparr>)"
  by (simp add: JobController_createJob_def await_def jobService_createJob_def
        createJob_def Let_def)

lemma check_random:
  "check_parameters T_random ps =
     (if \<exists>mn mx. map_of ps ''min'' = Some (JNum mn) \<and> map_of ps ''max'' = Some (JNum mx) \<and> mn < mx
      then None
      else Some (BadRequestError
             ''Random job requires valid min and max numbers where min < max''))"
  by (auto simp: check_parameters_def split: option.splits json.splits)

lemma check_webhook:
  "check_parameters T_webhook ps =
     (if \<exists>url. map_of ps ''url'' = Some (JStr url) \<and> url \<noteq> []
      then None
      else Some (BadRequestError ''Webhook job requires a url parameter (string)''))"
proof (cases "map_of ps ''url''")
  case None
  then show ?thesis by (simp add: check_parameters_def)
next
  case (Some v)
  then show ?thesis by (cases v) (simp_all add: check_parameters_def)
qed

text \<open>
  C8. A creation request of kind random is answered with the error of status 400 and
  leaves the store as it was, unless \<^verbatim>\<open>min\<close> and \<^verbatim>\<open>max\<close> are both numbers with
  \<^verbatim>\<open>min < max\<close>; with such a pair it is answered 201, and the job stored under the new
  identifier is in \<^verbatim>\<open>pending_payment\<close>.
\<close>

theorem createJob_random_validation:
  assumes "validateCreateJob body = Inr (T_random, ps)"
  shows
    "(\<not> (\<exists>mn mx. map_of ps ''min'' = Some (JNum mn) \<and> map_of ps ''max'' = Some (JNum mx)
                  \<and> mn < mx) \<longrightarrow>
        (\<exists>e. run (JobController_createJob cfg body nanoid) w = (Inl e, w) \<and> statusCode e = 400)) \<and>
     ((\<exists>mn mx. map_of ps ''min'' = Some (JNum mn) \<and> map_of ps ''max'' = Some (JNum mx)
                  \<and> mn < mx) \<longrightarrow>
        (\<exists>job pr. fst (run (JobController_createJob cfg body nanoid) w)
                      = Inr (Created201 nanoid pending_payment pr) \<and>
                   getJob (jobs (snd (run (JobController_createJob cfg body nanoid) w))) nanoid
                      = Some job \<and>
                   status job = pending_payment \<and> job_type job = T_random \<and>
                   parameters job = ps))"
proof (cases "\<exists>mn mx. map_of ps ''min'' = Some (JNum mn) \<and> map_of ps ''max'' = Some (JNum mx)
                  \<and> mn < mx")
  case True
  then have "check_parameters T_random ps = None"
    by (simp only: check_random if_True)
  from run_createJob_accepted [OF assms this, of cfg nanoid w] True
  show ?thesis
    by (simp add: createJob_def Let_def getJob_def map_of_update)
next
  case False
  then have "check_parameters T_random ps = Some (BadRequestError
             ''Random job requires valid min and max numbers where min < max'')"
    by (simp only: check_random if_False)
  from run_createJob_rejected [OF assms this, of cfg nanoid w] False
  show ?thesis by simp
qed

theorem createJob_random_validation_witness:
  "validateCreateJob (random_body 5 5) = Inr (T_random, [(''min'', JNum 5), (''max'', JNum 5)]) \<and>
   run (JobController_createJob demo_cfg (random_body 5 5) ''n1'') empty_world
     = (Inl (BadRequestError ''Random job requires valid min and max numbers where min < max''),
        empty_world) \<and>
   validateCreateJob (random_body 1 402)
     = Inr (T_random, [(''min'', JNum 1), (''max'', JNum 402)]) \<and>
   fst (run (JobController_createJob demo_cfg (random_body 1 402) ''n1'') empty_world)
     = Inr (Created201 ''n1'' pending_payment (createPaymentRequest demo_cfg (pending_job\<lparr>job_id := ''n1''\<rparr>))) \<and>
   status_of ''n1'' (snd (run (JobController_createJob demo_cfg (random_body 1 402) ''n1'')
                            empty_world))
     = Some pending_payment"
  using createJob_random_validation [of "random_body 5 5" "[(''min'', JNum 5), (''max'', JNum 5)]"
          demo_cfg "''n1''" empty_world]
        createJob_random_validation [of "random_body 1 402"
          "[(''min'', JNum 1), (''max'', JNum 402)]" demo_cfg "''n1''" empty_world]
  by (simp add: random_body_def validateCreateJob_def parse_type_def
        JobController_createJob_def check_parameters_def await_def jobService_createJob_def
        createJob_def Let_def empty_world_def status_of_def getJob_def pending_job_def)

text \<open>
  C9, as stated, fails: the text \<^verbatim>\<open>not a url\<close>, which has no scheme, is accepted as the
  target of a webhook, and the job is created.
\<close>

theorem createJob_webhook_counterexample:
  "\<not> url_has_scheme_delimiter ''not a url'' \<and>
   fst (run (JobController_createJob demo_cfg (webhook_body ''not a url'') ''n1'') empty_world)
     = Inr (Created201 ''n1'' pending_payment
              \<lparr>paymentUrl = ''https://x402-demo.payment.example.com/pay/n1'',
               r_amount = 3 / 1000, r_currency = ''SOL''\<rparr>) \<and>
   status_of ''n1'' (snd (run (JobController_createJob demo_cfg (webhook_body ''not a url'') ''n1'')
                            empty_world))
     = Some pending_payment"
  by (simp add: url_has_scheme_delimiter_def webhook_body_def validateCreateJob_def
        parse_type_def JobController_createJob_def check_parameters_def await_def
        jobService_createJob_def createJob_def Let_def empty_world_def status_of_def getJob_def
        createPaymentRequest_def x402_mode_def or_else_def demo_cfg_def)

text \<open>
  C9, as amended. A creation request of kind webhook is answered 201, and the job is
  stored in \<^verbatim>\<open>pending_payment\<close>, exactly when the member \<^verbatim>\<open>url\<close> of the parameters is a
  string that is not empty; the text of the string is not inspected. In every other case the
  request is answered with the error of status 400 and the store is as it was.
\<close>

theorem createJob_webhook_validation:
  assumes "validateCreateJob body = Inr (T_webhook, ps)"
  shows
    "(\<not> (\<exists>url. map_of ps ''url'' = Some (JStr url) \<and> url \<noteq> []) \<longrightarrow>
        (\<exists>e. run (JobController_createJob cfg body nanoid) w = (Inl e, w) \<and> statusCode e = 400)) \<and>
     ((\<exists>url. map_of ps ''url'' = Some (JStr url) \<and> url \<noteq> []) \<longrightarrow>
        (\<exists>job pr. fst (run (JobController_createJob cfg body nanoid) w)
                      = Inr (Created201 nanoid pending_payment pr) \<and>
                   getJob (jobs (snd (run (JobController_createJob cfg body nanoid) w))) nanoid
                      = Some job \<and>
                   status job = pending_payment \<and> job_type job = T_webhook \<and>
                   parameters job = ps))"
proof (cases "\<exists>url. map_of ps ''url'' = Some (JStr url) \<and> url \<noteq> []")
  case True
  then have "check_parameters T_webhook ps = None"
    by (simp only: check_webhook if_True)
  from run_createJob_accepted [OF assms this, of cfg nanoid w] True
  show ?thesis
    by (simp add: createJob_def Let_def getJob_def map_of_update)
next
  case False
  then have "check_parameters T_webhook ps
               = Some (BadRequestError ''Webhook job requires a url parameter (string)'')"
    by (simp only: check_webhook if_False)
  from run_createJob_rejected [OF assms this, of cfg nanoid w] False
  show ?thesis by simp
qed

theorem createJob_webhook_validation_witness:
  "validateCreateJob (webhook_body ''https://example.com/hook'')
     = Inr (T_webhook, [(''url'', JStr ''https://example.com/hook'')]) \<and>
   status_of ''n1'' (snd (run (JobController_createJob demo_cfg
                                 (webhook_body ''https://example.com/hook'') ''n1'') empty_world))
     = Some pending_payment \<and>
   validateCreateJob (webhook_body []) = Inr (T_webhook, [(''url'', JStr [])]) \<and>
   run (JobController_createJob demo_cfg (webhook_body []) ''n1'') empty_world
     = (Inl (BadRequestError ''Webhook job requires a url parameter (string)''), empty_world)"
  using createJob_webhook_validation [of "webhook_body ''https://example.com/hook''"
          "[(''url'', JStr ''https://example.com/hook'')]" demo_cfg "''n1''" empty_world]
        createJob_webhook_validation [of "webhook_body []" "[(''url'', JStr [])]"
          demo_cfg "''n1''" empty_world]
  by (simp add: webhook_body_def validateCreateJob_def parse_type_def
        JobController_createJob_def check_parameters_def await_def jobService_createJob_def
        createJob_def Let_def empty_world_def status_of_def getJob_def)

section \<open>Fetch without an accepted payment\<close>

lemma verifyPayment_verified:
  "verified (verifyPayment cfg h i a reply) \<longleftrightarrow>
     env_mode cfg = demo \<or> \<not> truthy_string (FACILITATOR_URL cfg) \<or>
     (\<exists>tx am cur. reply = ReplyOk (Some (JBool True)) tx am cur)"
  by (cases reply) (auto simp: verifyPayment_def)

text \<open>
  C5. A Fetch of a job that is in \<^verbatim>\<open>pending_payment\<close> is answered 402 with the payment
  instructions and the job's identifier, and changes nothing in the shared state, both when
  no payment header is supplied and when a header is supplied and the verification does not
  come back verified; in the second case the answer carries the reason. The verification
  comes back verified only in demo mode, without a facilitator URL, or when the facilitator
  answers ok with \<^verbatim>\<open>verified: true\<close>: a refusal, a facilitator error and a failed request
  (which is how a timeout of the runtime reaches the code) all count as not verified.
\<close>

theorem fetch_unpaid_payment_required:
  assumes "i \<noteq> []" and "getJob (jobs w) i = Some job" and "status job = pending_payment"
  shows
    "(\<not> truthy_string paymentHeader \<longrightarrow>
        run (JobController_getJob cfg i paymentHeader reply) w
          = (Inr (Payment402
               \<lparr>x_payment = getPaymentInstructions cfg, x_jobId = i,
                x_message = Some ''Payment required to access this resource'',
                x_error = None\<rparr>), w)) \<and>
     (truthy_string paymentHeader \<and>
      \<not> (env_mode cfg = demo \<or> \<not> truthy_string (FACILITATOR_URL cfg) \<or>
         (\<exists>tx am cur. reply = ReplyOk (Some (JBool True)) tx am cur)) \<longrightarrow>
        run (JobController_getJob cfg i paymentHeader reply) w
          = (Inr (Payment402
               \<lparr>x_payment = getPaymentInstructions cfg, x_jobId = i, x_message = None,
                x_error = Some (or_else
                    (v_error (verifyPayment cfg (or_else paymentHeader []) i (3 / 1000) reply))
                    ''Payment verification failed'')\<rparr>), w))"
proof -
  have v: "validateJobId i = Inr i"
    using assms(1) by (cases i) (simp_all add: validateJobId_def)
  show ?thesis
    using assms(2,3) verifyPayment_verified [of cfg "or_else paymentHeader []" i "3 / 1000" reply]
    by (simp add: JobController_getJob_def v await_def jobService_getJob_def pure_call_def)
qed

theorem fetch_unpaid_payment_required_witness:
  "''j1'' \<noteq> [] \<and> getJob (jobs one_pending) ''j1'' = Some pending_job \<and>
   status pending_job = pending_payment \<and>
   run (JobController_getJob live_cfg ''j1'' None (ReplyThrows None)) one_pending
     = (Inr (Payment402
          \<lparr>x_payment = getPaymentInstructions live_cfg, x_jobId = ''j1'',
           x_message = Some ''Payment required to access this resource'',
           x_error = None\<rparr>), one_pending) \<and>
   truthy_string (Some ''forged'') \<and> env_mode live_cfg \<noteq> demo \<and>
   truthy_string (FACILITATOR_URL live_cfg) \<and>
   run (JobController_getJob live_cfg ''j1'' (Some ''forged'')
          (ReplyNotOk 402 (Some ''payment not found''))) one_pending
     = (Inr (Payment402
          \<lparr>x_payment = getPaymentInstructions live_cfg, x_jobId = ''j1'', x_message = None,
           x_error = Some ''payment not found''\<rparr>), one_pending)"
  using fetch_unpaid_payment_required [of "''j1''" one_pending pending_job None live_cfg
          "ReplyThrows None"]
        fetch_unpaid_payment_required [of "''j1''" one_pending pending_job "Some ''forged''"
          live_cfg "ReplyNotOk 402 (Some ''payment not found'')"]
  by (simp add: one_pending_def getJob_def pending_job_def truthy_string_def env_mode_def
        live_cfg_def verifyPayment_def or_else_def)

section \<open>Effects of the awaited calls\<close>

lemma spread_only_status:
  "status (spread j (only_status s) now) = s"
  "job_id (spread j (only_status s) now) = job_id j"
  "job_type (spread j (only_status s) now) = job_type j"
  "parameters (spread j (only_status s) now) = parameters j"
  by (simp_all add: spread_def only_status_def no_update_def)

lemma getJob_updateJob:
  "getJob (snd (updateJob i pu now js)) k =
     (if k = i then map_option (\<lambda>j. spread j pu now) (getJob js i) else getJob js k)"
  by (simp add: updateJob_def getJob_def Let_def map_of_update split: option.splits)

lemma getJob_createJob:
  "getJob (snd (createJob nanoid now ty ps js)) k =
     (if k = nanoid then Some (fst (createJob nanoid now ty ps js)) else getJob js k)"
  by (simp add: createJob_def getJob_def Let_def map_of_update)

lemma snd_reads:
  "snd (jobService_getJob i w) = w"
  "snd (pure_call v w) = w"
  "snd (cacheService_get key w) = w"
  "snd (jobService_list lmt ofs filters w) = w"
  by (simp_all add: jobService_getJob_def pure_call_def cacheService_get_def
        jobService_list_def split: option.splits)

lemma fst_reads:
  "fst (jobService_getJob i w) = getJob (jobs w) i"
  "fst (pure_call v w) = v"
  by (simp_all add: jobService_getJob_def pure_call_def)

lemma jobs_after:
  "jobs (snd (jobService_updateJob i pu w)) = snd (updateJob i pu (clock w) (jobs w))"
  "jobs (snd (jobService_createJob nanoid ty ps w)) = snd (createJob nanoid (clock w) ty ps (jobs w))"
  "jobs (snd (queueService_addJob job w)) = jobs w"
  "jobs (snd (cacheService_del key w)) = jobs w"
  "jobs (snd (cacheService_set key snapshot ttl w)) = jobs w"
  by (simp_all add: jobService_updateJob_def jobService_createJob_def queueService_addJob_def
        cacheService_del_def cacheService_set_def split: prod.splits)

lemma queue_after:
  "queue (snd (jobService_updateJob i pu w)) = queue w"
  "queue (snd (jobService_createJob nanoid ty ps w)) = queue w"
  "queue (snd (queueService_addJob job w)) = queue w @ [job]"
  "queue (snd (cacheService_del key w)) = queue w"
  "queue (snd (cacheService_set key snapshot ttl w)) = queue w"
  by (simp_all add: jobService_updateJob_def jobService_createJob_def queueService_addJob_def
        cacheService_del_def cacheService_set_def split: prod.splits)

lemma clock_after:
  "clock (snd (jobService_updateJob i pu w)) = clock w"
  "clock (snd (jobService_createJob nanoid ty ps w)) = clock w"
  "clock (snd (queueService_addJob job w)) = clock w"
  "clock (snd (cacheService_del key w)) = clock w"
  "clock (snd (cacheService_set key snapshot ttl w)) = clock w"
  by (simp_all add: jobService_updateJob_def jobService_createJob_def queueService_addJob_def
        cacheService_del_def cacheService_set_def split: prod.splits)

lemma cache_after:
  "cache (snd (jobService_updateJob i pu w)) = cache w"
  "cache (snd (jobService_createJob nanoid ty ps w)) = cache w"
  "cache (snd (queueService_addJob job w)) = cache w"
  "cache (snd (cacheService_del key w)) = AList.delete key (cache w)"
  "cache (snd (cacheService_set key snapshot ttl w))
     = AList.update key (snapshot, clock w + ttl * 1000) (cache w)"
  by (simp_all add: jobService_updateJob_def jobService_createJob_def queueService_addJob_def
        cacheService_del_def cacheService_set_def split: prod.splits)

lemma status_of_after:
  "status_of k (snd (jobService_updateJob i (only_status s) w))
     = (if k = i then map_option (\<lambda>j. s) (status_of i w) else status_of k w)"
  "status_of k (snd (jobService_createJob nanoid ty ps w))
     = (if k = nanoid then Some pending_payment else status_of k w)"
  "status_of k (snd (queueService_addJob job w)) = status_of k w"
  "status_of k (snd (cacheService_del key w)) = status_of k w"
  "status_of k (snd (cacheService_set key snapshot ttl w)) = status_of k w"
  by (simp_all add: status_of_def jobs_after getJob_updateJob getJob_createJob
        option.map_comp comp_def spread_only_status)
     (simp add: createJob_def Let_def)

lemma advance_refl: "advance x x"
  by (cases x) simp_all

lemma status_of_found: "getJob (jobs w) i = Some job \<Longrightarrow> status_of i w = Some (status job)"
  by (simp add: status_of_def)

lemma status_of_absent: "i \<notin> fst ` set (jobs w) \<Longrightarrow> status_of i w = None"
  by (simp add: status_of_def getJob_def map_of_eq_None_iff)

section \<open>The dispatch sequence\<close>

lemma dispatch_trace:
  "run_trace (dispatch i job) w =
     (let w1 = snd (jobService_updateJob i (only_status payment_confirmed) w);
          w2 = snd (jobService_updateJob i (only_status query_in_progress) w1);
          w3 = snd (queueService_addJob job w2);
          w4 = snd (cacheService_del (''job:'' @ i) w3)
      in [w1, w2, w3, w4, w4])"
  by (simp add: dispatch_def await_def Let_def snd_reads)

lemma dispatch_run:
  "run (dispatch i job) w =
     (let w1 = snd (jobService_updateJob i (only_status payment_confirmed) w);
          w2 = snd (jobService_updateJob i (only_status query_in_progress) w1);
          w3 = snd (queueService_addJob job w2);
          w4 = snd (cacheService_del (''job:'' @ i) w3)
      in (Inr (Job200 (getJob (jobs w4) i)), w4))"
  by (simp add: dispatch_def await_def Let_def snd_reads fst_reads)

lemma dispatch_advance:
  "status_of i w = Some pending_payment \<Longrightarrow>
   successively advance (status_of k w # map (status_of k) (run_trace (dispatch i job) w))"
  by (simp add: dispatch_trace Let_def status_of_after advance_refl)

lemma dispatch_status:
  "status_of k (snd (run (dispatch i job) w))
     = (if k = i then map_option (\<lambda>j. query_in_progress) (status_of i w) else status_of k w)"
  by (simp add: dispatch_run Let_def status_of_after option.map_comp comp_def)

lemma dispatch_queue: "queue (snd (run (dispatch i job) w)) = queue w @ [job]"
  by (simp add: dispatch_run Let_def queue_after)

lemma dispatch_keys: "map fst (jobs (snd (run (dispatch i job) w))) = map fst (jobs w)"
  by (simp add: dispatch_run Let_def jobs_after updateJob_keys)

lemma dispatch_getJob:
  "getJob (jobs (snd (run (dispatch i job) w))) k =
     (if k = i
      then map_option (\<lambda>j. spread (spread j (only_status payment_confirmed) (clock w))
                              (only_status query_in_progress) (clock w)) (getJob (jobs w) i)
      else getJob (jobs w) k)"
  by (simp add: dispatch_run Let_def jobs_after clock_after getJob_updateJob
        option.map_comp comp_def)

lemma dispatch_cache:
  "cache (snd (run (dispatch i job) w)) = AList.delete (''job:'' @ i) (cache w)"
  by (simp add: dispatch_run Let_def cache_after)

section \<open>The shape of a request served alone\<close>

lemma confirm_shape:
  "(\<exists>i job. dispatching (JobController_confirmPayment cfg idp) w i job)
   \<or> idle (JobController_confirmPayment cfg idp) w"
proof (cases "validateJobId idp")
  case (Inl e)
  then show ?thesis by (simp add: JobController_confirmPayment_def idle_def)
next
  case (Inr i)
  show ?thesis
  proof (cases "getJob (jobs w) i")
    case None
    with Inr show ?thesis
      by (simp add: JobController_confirmPayment_def idle_def await_def snd_reads fst_reads)
  next
    case (Some job)
    show ?thesis
    proof (cases "status job = pending_payment")
      case True
      with Inr Some have "dispatching (JobController_confirmPayment cfg idp) w i job"
        by (simp add: JobController_confirmPayment_def dispatching_def await_def snd_reads
              fst_reads)
      then show ?thesis by blast
    next
      case False
      with Inr Some show ?thesis
        by (simp add: JobController_confirmPayment_def idle_def await_def snd_reads fst_reads)
    qed
  qed
qed

lemma getJob_shape:
  "(\<exists>i job. dispatching (JobController_getJob cfg idp h reply) w i job)
   \<or> idle (JobController_getJob cfg idp h reply) w"
proof (cases "validateJobId idp")
  case (Inl e)
  then show ?thesis by (simp add: JobController_getJob_def idle_def)
next
  case (Inr i)
  show ?thesis
  proof (cases "getJob (jobs w) i")
    case None
    with Inr show ?thesis
      by (simp add: JobController_getJob_def idle_def await_def snd_reads fst_reads)
  next
    case (Some job)
    show ?thesis
    proof (cases "status job = pending_payment \<and> truthy_string h \<and>
                  verified (verifyPayment cfg (or_else h []) i (3 / 1000) reply)")
      case True
      with Inr Some have "dispatching (JobController_getJob cfg idp h reply) w i job"
        by (simp add: JobController_getJob_def dispatching_def await_def snd_reads fst_reads)
      then show ?thesis by blast
    next
      case False
      with Inr Some have "idle (JobController_getJob cfg idp h reply) w"
        by (auto simp: JobController_getJob_def idle_def await_def snd_reads fst_reads
              jobs_after queue_after split: option.splits)
      then show ?thesis by blast
    qed
  qed
qed

lemma createJob_shape:
  "creating (JobController_createJob cfg body nanoid) w nanoid
   \<or> idle (JobController_createJob cfg body nanoid) w"
  by (auto simp: JobController_createJob_def creating_def idle_def await_def
        split: sum.splits option.splits)

lemma listJobs_shape: "idle (JobController_listJobs q) w"
  by (simp add: JobController_listJobs_def idle_def await_def Let_def snd_reads)

lemma handler_shape:
  "(\<exists>i job. dispatching (handler cfg r) w i job)
   \<or> (\<exists>body nanoid. r = ReqCreate body nanoid \<and> creating (handler cfg r) w nanoid)
   \<or> idle (handler cfg r) w"
proof (cases r)
  case (ReqCreate body nanoid)
  then show ?thesis using createJob_shape [of cfg body nanoid w] by auto
next
  case (ReqConfirm idp)
  then show ?thesis using confirm_shape [of cfg idp w] by auto
next
  case (ReqGet idp h reply)
  then show ?thesis using getJob_shape [of cfg idp h reply w] by auto
next
  case (ReqList q)
  then show ?thesis using listJobs_shape [of q w] by auto
qed

lemma validateJobId_ok: "i \<noteq> [] \<Longrightarrow> validateJobId i = Inr i"
  by (cases i) (simp_all add: validateJobId_def)

lemma confirm_dispatching:
  "i \<noteq> [] \<Longrightarrow> getJob (jobs w) i = Some job \<Longrightarrow> status job = pending_payment \<Longrightarrow>
   dispatching (JobController_confirmPayment cfg i) w i job"
  by (simp add: JobController_confirmPayment_def dispatching_def await_def snd_reads
        fst_reads validateJobId_ok)

lemma getJob_dispatching:
  "i \<noteq> [] \<Longrightarrow> getJob (jobs w) i = Some job \<Longrightarrow> status job = pending_payment \<Longrightarrow>
   truthy_string h \<Longrightarrow> verified (verifyPayment cfg (or_else h []) i (3 / 1000) reply) \<Longrightarrow>
   dispatching (JobController_getJob cfg i h reply) w i job"
  by (simp add: JobController_getJob_def dispatching_def await_def snd_reads fst_reads
        validateJobId_ok)

section \<open>The life cycle when requests are served one at a time\<close>

lemma constant_advance:
  "\<forall>x \<in> set xs. f x = a \<Longrightarrow> successively advance (a # map f xs)"
  by (induction xs) (simp_all add: advance_refl)

lemma trace_glue:
  "successively P (f w # map f (run_trace p w)) \<Longrightarrow>
   successively P (f (snd (run p w)) # ys) \<Longrightarrow>
   successively P (f w # map f (run_trace p w) @ ys)"
  by (induction p arbitrary: w) simp_all

lemma request_advance:
  assumes "\<And>body nanoid. r = ReqCreate body nanoid \<Longrightarrow> nanoid \<notin> fst ` set (jobs w)"
  shows "successively advance (status_of k w # map (status_of k) (run_trace (handler cfg r) w))"
proof -
  consider (d) i job where "dispatching (handler cfg r) w i job"
    | (c) body nanoid where "r = ReqCreate body nanoid" "creating (handler cfg r) w nanoid"
    | (n) "idle (handler cfg r) w"
    using handler_shape [of cfg r w] by blast
  then show ?thesis
  proof cases
    case d
    then have "status_of i w = Some pending_payment"
      and t: "run_trace (handler cfg r) w = w # w # run_trace (dispatch i job) w"
      by (simp_all add: dispatching_def status_of_found)
    then show ?thesis
      using dispatch_advance [of i w k job] by (simp add: advance_refl)
  next
    case c
    from c(1) have "status_of nanoid w = None"
      using assms by (simp add: status_of_absent)
    with c(2) show ?thesis
      by (auto simp: creating_def status_of_after advance_refl)
  next
    case n
    then have "\<forall>w' \<in> set (run_trace (handler cfg r) w). status_of k w' = status_of k w"
      by (simp add: idle_def status_of_def)
    then show ?thesis by (rule constant_advance)
  qed
qed

lemma keys_createJob:
  "fst ` set (snd (createJob nanoid now ty ps js)) = insert nanoid (fst ` set js)"
  by (simp add: createJob_def Let_def keys_update)

lemma keys_after_request:
  "fst ` set (jobs (snd (run (handler cfg r) w))) \<subseteq> fst ` set (jobs w) \<union> set (nanoids [r])"
proof -
  consider (d) i job where "dispatching (handler cfg r) w i job"
    | (c) body nanoid where "r = ReqCreate body nanoid" "creating (handler cfg r) w nanoid"
    | (n) "idle (handler cfg r) w"
    using handler_shape [of cfg r w] by blast
  then show ?thesis
  proof cases
    case d
    then have "map fst (jobs (snd (run (handler cfg r) w))) = map fst (jobs w)"
      by (simp add: dispatching_def dispatch_keys)
    then have "set (map fst (jobs (snd (run (handler cfg r) w)))) = set (map fst (jobs w))"
      by simp
    then show ?thesis by auto
  next
    case c
    then obtain ty ps where
      "snd (run (handler cfg r) w) = snd (jobService_createJob nanoid ty ps w)"
      by (auto simp: creating_def)
    then have "fst ` set (jobs (snd (run (handler cfg r) w)))
                 = insert nanoid (fst ` set (jobs w))"
      by (simp add: jobs_after keys_createJob)
    with c(1) show ?thesis by auto
  next
    case n
    then show ?thesis by (simp add: idle_def)
  qed
qed

lemma nanoids_Cons: "set (nanoids (r # rs)) = set (nanoids [r]) \<union> set (nanoids rs)"
  by (cases r) simp_all

lemma distinct_nanoids_Cons:
  "distinct (nanoids (r # rs)) \<Longrightarrow>
   distinct (nanoids rs) \<and> set (nanoids [r]) \<inter> set (nanoids rs) = {}"
  by (cases r) simp_all

lemma fresh_step:
  assumes "distinct (nanoids (r # rs))"
    and "set (nanoids (r # rs)) \<inter> fst ` set (jobs w) = {}"
  shows "distinct (nanoids rs)"
    and "set (nanoids rs) \<inter> fst ` set (jobs (snd (run (handler cfg r) w))) = {}"
    and "\<And>body nanoid. r = ReqCreate body nanoid \<Longrightarrow> nanoid \<notin> fst ` set (jobs w)"
proof -
  show "distinct (nanoids rs)"
    using assms(1) distinct_nanoids_Cons by blast
  have "set (nanoids [r]) \<inter> set (nanoids rs) = {}"
    using assms(1) distinct_nanoids_Cons by blast
  moreover have "set (nanoids rs) \<inter> fst ` set (jobs w) = {}"
    using assms(2) nanoids_Cons [of r rs] by blast
  ultimately show "set (nanoids rs) \<inter> fst ` set (jobs (snd (run (handler cfg r) w))) = {}"
    using keys_after_request [of cfg r w] by blast
  show "\<And>body nanoid. r = ReqCreate body nanoid \<Longrightarrow> nanoid \<notin> fst ` set (jobs w)"
    using assms(2) by auto
qed

lemma lifecycle_advance:
  assumes "distinct (nanoids reqs)"
    and "set (nanoids reqs) \<inter> fst ` set (jobs w) = {}"
  shows "successively advance (map (status_of i) (w # serve_trace cfg reqs w))"
  using assms
proof (induction reqs arbitrary: w)
  case Nil
  show ?case by simp
next
  case (Cons r rs)
  let ?w' = "snd (run (handler cfg r) w)"
  note fresh = fresh_step [OF Cons.prems]
  have one: "successively advance
      (status_of i w # map (status_of i) (run_trace (handler cfg r) w))"
    using request_advance [of r w i cfg] fresh(3) by simp
  have rest: "successively advance
      (status_of i ?w' # map (status_of i) (serve_trace cfg rs ?w'))"
    using Cons.IH [OF fresh(1) fresh(2)] by simp
  have "successively advance
      (status_of i w # map (status_of i) (run_trace (handler cfg r) w)
         @ map (status_of i) (serve_trace cfg rs ?w'))"
    using one rest by (rule trace_glue)
  then show ?case by simp
qed

lemma dispatch_trace_others:
  "k \<noteq> i \<Longrightarrow> \<forall>w' \<in> set (run_trace (dispatch i job) w). getJob (jobs w') k = getJob (jobs w) k"
  by (simp add: dispatch_trace Let_def jobs_after getJob_updateJob)

lemma settled_untouched:
  assumes "getJob (jobs w) i = Some job" and "status job \<noteq> pending_payment"
    and "\<And>body. r \<noteq> ReqCreate body i"
  shows "\<forall>w' \<in> set (run_trace (handler cfg r) w). getJob (jobs w') i = Some job"
    and "getJob (jobs (snd (run (handler cfg r) w))) i = Some job"
proof -
  consider (d) k j where "dispatching (handler cfg r) w k j"
    | (c) body nanoid where "r = ReqCreate body nanoid" "creating (handler cfg r) w nanoid"
    | (n) "idle (handler cfg r) w"
    using handler_shape [of cfg r w] by blast
  then have "(\<forall>w' \<in> set (run_trace (handler cfg r) w). getJob (jobs w') i = Some job) \<and>
             getJob (jobs (snd (run (handler cfg r) w))) i = Some job"
  proof cases
    case d
    then have k: "getJob (jobs w) k = Some j" "status j = pending_payment"
      and t: "run_trace (handler cfg r) w = w # w # run_trace (dispatch k j) w"
      and r: "run (handler cfg r) w = run (dispatch k j) w"
      by (simp_all add: dispatching_def)
    from k assms(1,2) have "i \<noteq> k" by auto
    then show ?thesis
      using dispatch_trace_others [of i k j w] assms(1)
      by (simp add: t r dispatch_getJob)
  next
    case c
    then have "nanoid \<noteq> i" using assms(3) by auto
    with c(2) assms(1) show ?thesis
      by (auto simp: creating_def jobs_after getJob_createJob)
  next
    case n
    with assms(1) show ?thesis by (simp add: idle_def)
  qed
  then show "\<forall>w' \<in> set (run_trace (handler cfg r) w). getJob (jobs w') i = Some job"
    and "getJob (jobs (snd (run (handler cfg r) w))) i = Some job"
    by blast+
qed

text \<open>
  C3, as amended. When the requests Create, Fetch, Confirm and List are served one at a
  time, each to its answer before the next starts, and \<^verbatim>\<open>nanoid\<close> never draws an
  identifier twice, then from one shared state to the next the state of every job either
  stays as it is, or appears as \<^verbatim>\<open>pending_payment\<close>, or moves from
  \<^verbatim>\<open>pending_payment\<close> to \<^verbatim>\<open>payment_confirmed\<close>, or from \<^verbatim>\<open>payment_confirmed\<close> to
  \<^verbatim>\<open>query_in_progress\<close>. And a request served alone, other than a Create that draws the
  job's own identifier, leaves every job that is not in \<^verbatim>\<open>pending_payment\<close> when the
  request starts exactly as it is stored, in every shared state up to its answer: a Fetch or
  a Confirm never modifies a job that is in \<^verbatim>\<open>payment_confirmed\<close>,
  \<^verbatim>\<open>query_in_progress\<close>, \<^verbatim>\<open>completed\<close> or \<^verbatim>\<open>failed\<close>. Nothing in \<^verbatim>\<open>updateJob\<close>
  enforces this, and nothing is claimed for requests that overlap.
\<close>

theorem sequential_lifecycle:
  "(distinct (nanoids reqs) \<and> set (nanoids reqs) \<inter> fst ` set (jobs w) = {} \<longrightarrow>
      successively advance (map (status_of i) (w # serve_trace cfg reqs w))) \<and>
   (getJob (jobs w) i = Some job \<and> status job \<noteq> pending_payment \<and>
    (\<forall>body. r \<noteq> ReqCreate body i) \<longrightarrow>
      (\<forall>w' \<in> set (run_trace (handler cfg r) w). getJob (jobs w') i = Some job) \<and>
      getJob (jobs (snd (run (handler cfg r) w))) i = Some job)"
  using lifecycle_advance [of reqs w i cfg] settled_untouched [of w i job r cfg]
  by blast

theorem sequential_lifecycle_witness:
  "distinct (nanoids example_session) \<and>
   set (nanoids example_session) \<inter> fst ` set (jobs empty_world) = {} \<and>
   successively advance
     (map (status_of ''j1'') (empty_world # serve_trace demo_cfg example_session empty_world)) \<and>
   map (status_of ''j1'') (empty_world # serve_trace demo_cfg example_session empty_world)
     = [None, Some pending_payment, Some pending_payment, Some pending_payment,
        Some pending_payment, Some payment_confirmed, Some query_in_progress,
        Some query_in_progress, Some query_in_progress, Some query_in_progress,
        Some query_in_progress, Some query_in_progress, Some query_in_progress,
        Some query_in_progress, Some query_in_progress] \<and>
   getJob (jobs one_completed) ''j1'' = Some completed_job \<and>
   status completed_job \<noteq> pending_payment \<and>
   getJob (jobs (snd (run (handler demo_cfg (ReqConfirm ''j1'')) one_completed))) ''j1''
     = Some completed_job \<and>
   getJob (jobs (snd (run (handler demo_cfg (ReqGet ''j1'' (Some ''proof-a'') (ReplyThrows None)))
                        one_completed))) ''j1''
     = Some completed_job"
proof -
  have a: "map (status_of ''j1'') (empty_world # serve_trace demo_cfg example_session empty_world)
     = [None, Some pending_payment, Some pending_payment, Some pending_payment,
        Some pending_payment, Some payment_confirmed, Some query_in_progress,
        Some query_in_progress, Some query_in_progress, Some query_in_progress,
        Some query_in_progress, Some query_in_progress, Some query_in_progress,
        Some query_in_progress, Some query_in_progress]"
    by code_simp
  have b: "distinct (nanoids example_session)"
    "set (nanoids example_session) \<inter> fst ` set (jobs empty_world) = {}"
    by (simp_all add: example_session_def empty_world_def)
  have c: "getJob (jobs one_completed) ''j1'' = Some completed_job"
    "status completed_job \<noteq> pending_payment"
    by (simp_all add: one_completed_def getJob_def completed_job_def pending_job_def)
  show ?thesis
    using sequential_lifecycle [of example_session empty_world "''j1''" demo_cfg
            completed_job "ReqConfirm ''j1''"]
          sequential_lifecycle [of "[]" one_completed "''j1''" demo_cfg completed_job
            "ReqConfirm ''j1''"]
          sequential_lifecycle [of "[]" one_completed "''j1''" demo_cfg completed_job
            "ReqGet ''j1'' (Some ''proof-a'') (ReplyThrows None)"]
          a b c
    by simp
qed

text \<open>
  C3, as stated, fails. With two overlapping Fetch requests that both carry a proof, the
  job goes from \<^verbatim>\<open>query_in_progress\<close> back to \<^verbatim>\<open>payment_confirmed\<close> when the second
  request runs its first update.
\<close>

theorem overlapping_fetches_regress_counterexample:
  "map (status_of ''j1'') (one_pending # events_trace overlapping (two_fetches, one_pending))
     = [Some pending_payment, Some pending_payment, Some pending_payment,
        Some pending_payment, Some pending_payment, Some pending_payment,
        Some payment_confirmed, Some query_in_progress, Some query_in_progress,
        Some query_in_progress, Some query_in_progress, Some query_in_progress,
        Some payment_confirmed, Some query_in_progress, Some query_in_progress,
        Some query_in_progress, Some query_in_progress] \<and>
   \<not> forward (Some query_in_progress) (Some payment_confirmed) \<and>
   \<not> successively forward
        (map (status_of ''j1'')
           (one_pending # events_trace overlapping (two_fetches, one_pending)))"
proof -
  have "map (status_of ''j1'') (one_pending # events_trace overlapping (two_fetches, one_pending))
     = [Some pending_payment, Some pending_payment, Some pending_payment,
        Some pending_payment, Some pending_payment, Some pending_payment,
        Some payment_confirmed, Some query_in_progress, Some query_in_progress,
        Some query_in_progress, Some query_in_progress, Some query_in_progress,
        Some payment_confirmed, Some query_in_progress, Some query_in_progress,
        Some query_in_progress, Some query_in_progress]"
    by code_simp
  then show ?thesis by simp
qed

section \<open>At most one dispatch when requests are served one at a time\<close>
























section \<open>What the queue receives\<close>

lemma dispatching_queue:
  assumes "dispatching p w i job"
  shows "queue (snd (run p w)) = queue w @ [job]"
    and "\<forall>w' \<in> set (run_trace p w).
           queue w' = queue w \<or>
           (queue w' = queue w @ [job] \<and> status_of i w' = Some query_in_progress)"
proof -
  have s: "status_of i w = Some pending_payment"
    and t: "run_trace p w = w # w # run_trace (dispatch i job) w"
    and r: "run p w = run (dispatch i job) w"
    using assms by (simp_all add: dispatching_def status_of_found)
  show "queue (snd (run p w)) = queue w @ [job]"
    by (simp add: r dispatch_queue)
  show "\<forall>w' \<in> set (run_trace p w).
           queue w' = queue w \<or>
           (queue w' = queue w @ [job] \<and> status_of i w' = Some query_in_progress)"
    by (simp add: t dispatch_trace Let_def queue_after status_of_after s)
qed

text \<open>
  C6, as stated, fails: the job value that a Fetch with an accepted proof hands to the queue
  is the handler's local variable \<^verbatim>\<open>job\<close>, read before the two updates, and its state
  field is \<^verbatim>\<open>pending_payment\<close>.
\<close>

theorem queue_receives_pending_counterexample:
  "queue (snd (run (JobController_getJob demo_cfg ''j1'' (Some ''proof-a'') (ReplyThrows None))
                 one_pending))
     = [pending_job] \<and>
   status pending_job = pending_payment"
  by code_simp

text \<open>
  C6, as amended. When a Confirm, or a Fetch whose proof is accepted, is served alone on a
  job that is in \<^verbatim>\<open>pending_payment\<close>, the queue receives exactly one job value: the
  snapshot the handler read at its start, whose state field is \<^verbatim>\<open>pending_payment\<close>. At
  the moment it is handed over, and in every shared state from then to the answer, the job
  stored under that identifier is in \<^verbatim>\<open>query_in_progress\<close>.
\<close>

theorem queue_receives_snapshot:
  assumes "i \<noteq> []" and "getJob (jobs w) i = Some job" and "status job = pending_payment"
    and "p = JobController_confirmPayment cfg i \<or>
         (p = JobController_getJob cfg i h reply \<and> truthy_string h \<and>
          verified (verifyPayment cfg (or_else h []) i (3 / 1000) reply))"
  shows "queue (snd (run p w)) = queue w @ [job] \<and>
         (\<forall>w' \<in> set (run_trace p w).
            queue w' = queue w \<or>
            (queue w' = queue w @ [job] \<and> status_of i w' = Some query_in_progress))"
proof -
  have "dispatching p w i job"
    using assms confirm_dispatching [of i w job cfg] getJob_dispatching [of i w job h cfg reply]
    by blast
  then show ?thesis
    using dispatching_queue [of p w i job] by blast
qed

theorem queue_receives_snapshot_witness:
  "''j1'' \<noteq> [] \<and> getJob (jobs one_pending) ''j1'' = Some pending_job \<and>
   status pending_job = pending_payment \<and>
   queue (snd (run (JobController_confirmPayment demo_cfg ''j1'') one_pending))
     = queue one_pending @ [pending_job] \<and>
   map (\<lambda>w'. (length (queue w'), status_of ''j1'' w'))
       (run_trace (JobController_confirmPayment demo_cfg ''j1'') one_pending)
     = [(0, Some pending_payment), (0, Some pending_payment), (0, Some payment_confirmed),
        (0, Some query_in_progress), (1, Some query_in_progress),
        (1, Some query_in_progress), (1, Some query_in_progress)]"
proof -
  have a: "getJob (jobs one_pending) ''j1'' = Some pending_job"
    and b: "status pending_job = pending_payment"
    by (simp_all add: one_pending_def getJob_def pending_job_def)
  have c: "map (\<lambda>w'. (length (queue w'), status_of ''j1'' w'))
       (run_trace (JobController_confirmPayment demo_cfg ''j1'') one_pending)
     = [(0, Some pending_payment), (0, Some pending_payment), (0, Some payment_confirmed),
        (0, Some query_in_progress), (1, Some query_in_progress),
        (1, Some query_in_progress), (1, Some query_in_progress)]"
    by code_simp
  show ?thesis
    using queue_receives_snapshot [of "''j1''" one_pending pending_job
            "JobController_confirmPayment demo_cfg ''j1''" demo_cfg None "ReplyThrows None"]
          a b c
    by simp
qed

section \<open>The cache\<close>

lemma getJob_uncached:
  assumes "i \<noteq> []" and "getJob (jobs w) i = Some job" and "status job \<noteq> pending_payment"
    and "map_of (cache w) (''job:'' @ i) = None"
  shows "fst (run (JobController_getJob cfg i h reply) w) = Inr (Job200 (Some job))"
  using assms
  by (simp add: JobController_getJob_def validateJobId_ok await_def fst_reads snd_reads
        cacheService_get_def)

text \<open>
  C4, as stated, fails. Two Fetches with a proof overlap. After the first has answered, a
  third Fetch reads the job and caches it. The second Fetch then updates the job again, at
  a later time, and hands it to the queue; the cache entry is deleted only after that call
  has returned. A fourth Fetch that arrives in between is served from the cache: it is
  answered with the job as it was before the updates of the second Fetch, stamped 200,
  while the stored job is stamped 250.
\<close>

theorem stale_snapshot_served_counterexample:
  "answers (fst (exec_events stale_read (four_fetches, one_pending))) ! 3
     = Some (Inr (Job200 (Some (pending_job\<lparr>status := query_in_progress,
                                              updatedAt := 200\<rparr>)))) \<and>
   getJob (jobs (snd (exec_events stale_read (four_fetches, one_pending)))) ''j1''
     = Some (pending_job\<lparr>status := query_in_progress, updatedAt := 250\<rparr>)"
  by code_simp

text \<open>
  C4, as amended. When a Confirm, or a Fetch whose proof is accepted, is served alone on a
  job that is in \<^verbatim>\<open>pending_payment\<close>, then at its answer the cache has no entry for the
  job, whatever it held before, and a Fetch served next is answered with the job as it is
  stored, in \<^verbatim>\<open>query_in_progress\<close>. Nothing is claimed for requests that overlap, nor for
  the writes of the queue's worker, which is not among the sources.
\<close>

theorem fetch_after_dispatch_is_fresh:
  assumes "i \<noteq> []" and "getJob (jobs w) i = Some job" and "status job = pending_payment"
    and "p = JobController_confirmPayment cfg i \<or>
         (p = JobController_getJob cfg i h reply \<and> truthy_string h \<and>
          verified (verifyPayment cfg (or_else h []) i (3 / 1000) reply))"
  shows "fst (cacheService_get (''job:'' @ i) (snd (run p w))) = None \<and>
         status_of i (snd (run p w)) = Some query_in_progress \<and>
         fst (run (JobController_getJob cfg i h' reply') (snd (run p w)))
           = Inr (Job200 (getJob (jobs (snd (run p w))) i))"
proof -
  let ?w' = "snd (run p w)"
  have "dispatching p w i job"
    using assms confirm_dispatching [of i w job cfg] getJob_dispatching [of i w job h cfg reply]
    by blast
  then have r: "?w' = snd (run (dispatch i job) w)"
    by (simp add: dispatching_def)
  have c: "map_of (cache ?w') (''job:'' @ i) = None"
    by (simp add: r dispatch_cache delete_conv)
  have s: "status_of i ?w' = Some query_in_progress"
    using assms(2) by (simp add: r dispatch_status status_of_found)
  then obtain j where j: "getJob (jobs ?w') i = Some j" and "status j = query_in_progress"
    by (auto simp: status_of_def)
  then have "fst (run (JobController_getJob cfg i h' reply') ?w') = Inr (Job200 (Some j))"
    using getJob_uncached [of i ?w' j cfg h' reply'] assms(1) c by simp
  with c s j show ?thesis
    by (simp add: cacheService_get_def)
qed

theorem fetch_after_dispatch_is_fresh_witness:
  "''j1'' \<noteq> [] \<and> getJob (jobs stale_cache) ''j1'' = Some pending_job \<and>
   status pending_job = pending_payment \<and>
   truthy_string (Some ''proof-a'') \<and>
   verified (verifyPayment demo_cfg (or_else (Some ''proof-a'') []) ''j1'' (3 / 1000)
               (ReplyThrows None)) \<and>
   fst (cacheService_get ''job:j1'' stale_cache) = Some completed_job \<and>
   fst (run (JobController_getJob demo_cfg ''j1'' None (ReplyThrows None))
          (snd (run (JobController_getJob demo_cfg ''j1'' (Some ''proof-a'') (ReplyThrows None))
                  stale_cache)))
     = Inr (Job200 (Some (pending_job\<lparr>status := query_in_progress, updatedAt := 10\<rparr>)))"
proof -
  have a: "getJob (jobs stale_cache) ''j1'' = Some pending_job"
    and b: "status pending_job = pending_payment"
    and c: "truthy_string (Some ''proof-a'')"
    and d: "verified (verifyPayment demo_cfg (or_else (Some ''proof-a'') []) ''j1'' (3 / 1000)
               (ReplyThrows None))"
    and e: "fst (cacheService_get ''job:j1'' stale_cache) = Some completed_job"
    by (simp_all add: stale_cache_def getJob_def pending_job_def truthy_string_def
          verifyPayment_def env_mode_def demo_cfg_def cacheService_get_def)
  have f: "getJob (jobs (snd (run (JobController_getJob demo_cfg ''j1'' (Some ''proof-a'')
                                     (ReplyThrows None)) stale_cache))) ''j1''
             = Some (pending_job\<lparr>status := query_in_progress, updatedAt := 10\<rparr>)"
    by code_simp
  show ?thesis
    using fetch_after_dispatch_is_fresh [of "''j1''" stale_cache pending_job
            "JobController_getJob demo_cfg ''j1'' (Some ''proof-a'') (ReplyThrows None)"
            demo_cfg "Some ''proof-a''" "ReplyThrows None" None "ReplyThrows None"]
          a b c d e f
    by simp
qed

end
